theory Spec2Isabelle
  imports Main "HOL-Library.Monad_Syntax"
begin

section \<open>JSON documents and the values the handlers compute with\<close>

text \<open>
  \<open>server.js\<close> keeps the catalogue in \<open>items.json\<close> and reads it with
  \<open>JSON.parse(fs.readFileSync('items.json', 'utf8'))\<close>. Nothing checks the shape of
  what it reads, so an item is any JSON value. The members of an object are kept as the
  text lists them (in order, a name possibly twice); \<open>JSON_parse\<close> below builds the
  object the runtime holds.

  Numbers are the integers of the catalogue (weights, times, status amounts) of
  magnitude below \<open>2^53\<close>: there \<open>JSON.parse\<close> reads the numeral exactly and
  \<open>Number::toString\<close> prints it back in decimal. Fractions and larger numbers, which the
  runtime rounds to a double, are outside the model. A \<open>char\<close> stands for one code unit
  of a string.
\<close>

datatype json =
    JNull
  | JBool bool
  | JNum int
  | JStr string
  | JArr "json list"
  | JObj "(string \<times> json) list"

text \<open>What an expression evaluates to: a value read from the document, or \<open>undefined\<close>.\<close>

datatype jsval = Undefined | Val json

subsection \<open>Decimal numerals\<close>

definition digit_char :: "nat \<Rightarrow> char" where
  "digit_char d = ''0123456789'' ! d"

fun show_nat :: "nat \<Rightarrow> string" where
  "show_nat n = (if n < 10 then [digit_char n] else show_nat (n div 10) @ [digit_char (n mod 10)])"

declare show_nat.simps [simp del]

definition show_int :: "int \<Rightarrow> string" where
  "show_int i = (if i < 0 then CHR ''-'' # show_nat (nat (- i)) else show_nat (nat i))"

definition is_digit :: "char \<Rightarrow> bool" where
  "is_digit c = ((48::nat) \<le> of_char c \<and> of_char c \<le> (57::nat))"

definition digit_val :: "char \<Rightarrow> nat" where
  "digit_val c = of_char c - 48"

definition read_nat :: "string \<Rightarrow> nat" where
  "read_nat s = foldl (\<lambda>n c. 10 * n + digit_val c) 0 s"

subsection \<open>JSON.parse: the order of an object's own properties\<close>

text \<open>
  \<open>JSON.parse\<close> creates each member as a property of a fresh object, in the order of
  the text; a name that comes again overwrites the value and keeps the first place. The
  runtime then lists the own properties with the array indices first, in ascending numeric
  order, and the other names after them in the order of creation. That list is what
  \<open>Object.entries\<close> and \<open>JSON.stringify\<close> walk. An array index is the canonical
  numeral of an integer below \<open>2^32 - 1\<close>.
\<close>

definition is_array_index :: "string \<Rightarrow> bool" where
  "is_array_index k =
     (k \<noteq> [] \<and> list_all is_digit k \<and> (k = ''0'' \<or> hd k \<noteq> CHR ''0'') \<and>
      read_nat k < 4294967295)"

fun create_property :: "string \<Rightarrow> 'v \<Rightarrow> (string \<times> 'v) list \<Rightarrow> (string \<times> 'v) list" where
  "create_property k v [] = [(k, v)]"
| "create_property k v ((k', v') # ps) =
     (if k = k' then (k, v) # ps else (k', v') # create_property k v ps)"

definition create_properties :: "(string \<times> 'v) list \<Rightarrow> (string \<times> 'v) list" where
  "create_properties kvs = foldl (\<lambda>ps (k, v). create_property k v ps) [] kvs"

definition own_properties :: "(string \<times> 'v) list \<Rightarrow> (string \<times> 'v) list" where
  "own_properties ps =
     sort_key (\<lambda>(k, v). read_nat k) (filter (\<lambda>(k, v). is_array_index k) ps) @
     filter (\<lambda>(k, v). \<not> is_array_index k) ps"

fun JSON_parse :: "json \<Rightarrow> json" where
  "JSON_parse (JArr xs) = JArr (map JSON_parse xs)"
| "JSON_parse (JObj kvs) =
     JObj (own_properties (create_properties (map (\<lambda>(k, v). (k, JSON_parse v)) kvs)))"
| "JSON_parse v = v"

subsection \<open>Truthiness, property reads and string conversion\<close>

text \<open>\<open>if (x)\<close>, \<open>x && y\<close>: the falsy values are \<open>undefined\<close>, \<open>null\<close>, \<open>false\<close>,
  \<open>0\<close> and the empty string.\<close>

fun js_truthy :: "jsval \<Rightarrow> bool" where
  "js_truthy Undefined = False"
| "js_truthy (Val JNull) = False"
| "js_truthy (Val (JBool b)) = b"
| "js_truthy (Val (JNum n)) = (n \<noteq> 0)"
| "js_truthy (Val (JStr s)) = (s \<noteq> [])"
| "js_truthy (Val (JArr xs)) = True"
| "js_truthy (Val (JObj kvs)) = True"

text \<open>
  \<open>x.k\<close> for the names the handlers read (\<open>name\<close>, \<open>label\<close>, \<open>client\<close>, \<open>length\<close>, ...):
  an object gives its own property, an array and a string give their \<open>length\<close>, and
  every other read is \<open>undefined\<close>, since no prototype has a property of these names.
  A read on \<open>null\<close> throws; each caller below tests for \<open>null\<close> before it reads.
\<close>

fun get_prop :: "json \<Rightarrow> string \<Rightarrow> jsval" where
  "get_prop (JObj kvs) k = (case map_of kvs k of None \<Rightarrow> Undefined | Some v \<Rightarrow> Val v)"
| "get_prop (JArr xs) k = (if k = ''length'' then Val (JNum (int (length xs))) else Undefined)"
| "get_prop (JStr s) k = (if k = ''length'' then Val (JNum (int (length s))) else Undefined)"
| "get_prop v k = Undefined"

text \<open>
  \<open>${x}\<close> in a template literal is \<open>ToString(x)\<close>. An array joins its elements with
  commas, a \<open>null\<close> element giving the empty string. An object prints as
  \<open>[object Object]\<close> through the inherited \<open>toString\<close>; when the document gives it a
  member named \<open>toString\<close> of its own, that member is not callable and the conversion
  throws a TypeError (\<open>None\<close>).
\<close>

fun to_string :: "json \<Rightarrow> string option"
  and join :: "json list \<Rightarrow> string option" where
  "to_string JNull = Some ''null''"
| "to_string (JBool b) = Some (if b then ''true'' else ''false'')"
| "to_string (JNum n) = Some (show_int n)"
| "to_string (JStr s) = Some s"
| "to_string (JArr xs) = join xs"
| "to_string (JObj kvs) =
     (if map_of kvs ''toString'' = None then Some ''[object Object]'' else None)"
| "join [] = Some []"
| "join (x # xs) = do {
     s \<leftarrow> (if x = JNull then Some [] else to_string x);
     if xs = [] then Some s else do { r \<leftarrow> join xs; Some (s @ '','' @ r) }
   }"

fun js_to_string :: "jsval \<Rightarrow> string option" where
  "js_to_string Undefined = Some ''undefined''"
| "js_to_string (Val v) = to_string v"

abbreviation (input) quote :: string where
  "quote \<equiv> [CHR 0x27]"

abbreviation (input) newline :: string where
  "newline \<equiv> [CHR 0x0A]"

text \<open>\<open>'${x}'\<close>: the text between single quotes, with no escaping.\<close>

definition quoted :: "string \<Rightarrow> string" where
  "quoted s = quote @ s @ quote"

section \<open>The Lua generator: \<open>app.get('/generate-lua')\<close>\<close>

subsection \<open>The base URL of the request\<close>

record request =
  x_forwarded_proto :: "string option"
  protocol :: string
  x_forwarded_host :: "string option"
  host :: "string option"

text \<open>\<open>h || d\<close> on a header: the header when it is there and not empty.\<close>

definition header_or :: "string option \<Rightarrow> string \<Rightarrow> string" where
  "header_or h d = (case h of None \<Rightarrow> d | Some v \<Rightarrow> if v = [] then d else v)"

text \<open>Lines 117 to 123. Without a \<open>Host\<close> header \<open>req.get('host')\<close> is \<open>undefined\<close>,
  which the template prints as such.\<close>

definition getBaseUrl :: "request \<Rightarrow> string" where
  "getBaseUrl req =
     (let protocol = header_or (x_forwarded_proto req) (protocol req);
          host = header_or (x_forwarded_host req)
                   (case host req of None \<Rightarrow> ''undefined'' | Some h \<Rightarrow> h)
      in protocol @ ''://'' @ host)"

subsection \<open>Rewriting \<open>imageurl\<close>\<close>

text \<open>
  \<open>imageurl.replace(/^https?:\/\/[^\/]+/, '')\<close> removes a match at the start of the
  string: \<open>http\<close>, an optional \<open>s\<close>, \<open>://\<close> and then as many characters other than
  \<open>/\<close> as there are, at least one. Without a match the string is left as it is.
\<close>

definition scheme_rest :: "string \<Rightarrow> string option" where
  "scheme_rest s =
     (if take 8 s = ''https://'' then Some (drop 8 s)
      else if take 7 s = ''http://'' then Some (drop 7 s)
      else None)"

definition strip_base :: "string \<Rightarrow> string" where
  "strip_base s =
     (case scheme_rest s of
        None \<Rightarrow> s
      | Some r \<Rightarrow> if takeWhile (\<lambda>c. c \<noteq> CHR ''/'') r = [] then s
                  else dropWhile (\<lambda>c. c \<noteq> CHR ''/'') r)"

text \<open>The URL written after \<open>imageurl = \<close>: \<open>${baseUrl}${imageUrl}\<close>.\<close>

definition rewrite_imageurl :: "string \<Rightarrow> string \<Rightarrow> string" where
  "rewrite_imageurl baseUrl imageurl = baseUrl @ strip_base imageurl"

subsection \<open>One item\<close>

text \<open>
  The handler appends to \<open>luaContent\<close>. The model collects, for every mapping it writes,
  the texts of the fields in the order of the appends, one text for each field, and
  concatenates them where the mapping is closed. \<open>None\<close> is an exception thrown in the
  \<open>forEach\<close> callback.

  \<open>if (x) luaContent += `<indent><key> = ${x},\n`\<close> and its quoted form:
\<close>

definition raw_field :: "string \<Rightarrow> jsval \<Rightarrow> string list option" where
  "raw_field lhs x =
     (if js_truthy x then do { s \<leftarrow> js_to_string x; Some [lhs @ s @ '','' @ newline] }
      else Some [])"

definition quoted_field :: "string \<Rightarrow> jsval \<Rightarrow> string list option" where
  "quoted_field lhs x =
     (if js_truthy x then do { s \<leftarrow> js_to_string x; Some [lhs @ quoted s @ '','' @ newline] }
      else Some [])"

text \<open>Lines 171 to 175: \<open>label\<close>, then \<open>weight\<close>, \<open>degrade\<close>, \<open>consume\<close>, \<open>stack\<close>.\<close>

definition emit_scalars :: "json \<Rightarrow> string list option" where
  "emit_scalars item = do {
     label \<leftarrow> js_to_string (get_prop item ''label'');
     weight \<leftarrow> raw_field ''        weight = '' (get_prop item ''weight'');
     degrade \<leftarrow> raw_field ''        degrade = '' (get_prop item ''degrade'');
     consume \<leftarrow> raw_field ''        consume = '' (get_prop item ''consume'');
     Some ([''        label = '' @ quoted label @ '','' @ newline] @ weight @ degrade @ consume @
           (if js_truthy (get_prop item ''stack'') then [''        stack = true,'' @ newline]
            else []))
   }"

text \<open>
  Lines 184 to 188. Only a string has \<open>replace\<close>: on any other truthy value the call
  throws.
\<close>

fun emit_imageurl :: "string \<Rightarrow> jsval \<Rightarrow> string list option" where
  "emit_imageurl baseUrl (Val (JStr s)) =
     (if s \<noteq> [] then
        Some [''            imageurl = '' @ quoted (rewrite_imageurl baseUrl s) @ '','' @ newline]
      else Some [])"
| "emit_imageurl baseUrl x = (if js_truthy x then None else Some [])"

text \<open>
  Lines 189 to 195. \<open>Object.entries\<close> lists the own properties of an object; the
  elements of an array and the characters of a string under their indices; nothing for a
  number or a boolean.
\<close>

fun Object_entries :: "json \<Rightarrow> (string \<times> json) list" where
  "Object_entries (JObj kvs) = kvs"
| "Object_entries (JArr xs) = zip (map show_nat [0..<length xs]) xs"
| "Object_entries (JStr s) = zip (map show_nat [0..<length s]) (map (\<lambda>c. JStr [c]) s)"
| "Object_entries v = []"

fun emit_entries :: "(string \<times> json) list \<Rightarrow> string option" where
  "emit_entries [] = Some []"
| "emit_entries ((statusKey, statusValue) # rest) = do {
     s \<leftarrow> to_string statusValue;
     t \<leftarrow> emit_entries rest;
     Some (''                ['' @ quoted statusKey @ ''] = '' @ s @ '','' @ newline @ t)
   }"

fun emit_status :: "jsval \<Rightarrow> string list option" where
  "emit_status Undefined = Some []"
| "emit_status (Val status) =
     (if js_truthy (Val status) then do {
        entries \<leftarrow> emit_entries (Object_entries status);
        Some [''            status = {'' @ newline @ entries @ ''            },'' @ newline]
      } else Some [])"

text \<open>Lines 179 to 195: the fields of \<open>client\<close>, in the order of the source.\<close>

definition client_fields :: "string \<Rightarrow> json \<Rightarrow> string list option" where
  "client_fields baseUrl client = do {
     anim \<leftarrow> quoted_field ''            anim = '' (get_prop client ''anim'');
     prop \<leftarrow> quoted_field ''            prop = '' (get_prop client ''prop'');
     usetime \<leftarrow> raw_field ''            usetime = '' (get_prop client ''usetime'');
     notification \<leftarrow> quoted_field ''            notification = '' (get_prop client ''notification'');
     image \<leftarrow> quoted_field ''            image = '' (get_prop client ''image'');
     imageurl \<leftarrow> emit_imageurl baseUrl (get_prop client ''imageurl'');
     status \<leftarrow> emit_status (get_prop client ''status'');
     Some (anim @ prop @ usetime @ notification @ image @ imageurl @ status)
   }"

fun emit_client :: "string \<Rightarrow> jsval \<Rightarrow> string list option" where
  "emit_client baseUrl Undefined = Some []"
| "emit_client baseUrl (Val client) =
     (if js_truthy (Val client) then do {
        fields \<leftarrow> client_fields baseUrl client;
        Some [''        client = {'' @ newline @ concat fields @ ''        },'' @ newline]
      } else Some [])"

text \<open>Lines 199 to 203.\<close>

definition server_fields :: "json \<Rightarrow> string list option" where
  "server_fields server = quoted_field ''            export = '' (get_prop server ''export'')"

fun emit_server :: "jsval \<Rightarrow> string list option" where
  "emit_server Undefined = Some []"
| "emit_server (Val server) =
     (if js_truthy (Val server) then do {
        fields \<leftarrow> server_fields server;
        Some [''        server = {'' @ newline @ concat fields @ ''        },'' @ newline]
      } else Some [])"

text \<open>
  Lines 205 to 215. \<open>item.buttons.length > 0\<close> compares a number when \<open>buttons\<close> is an
  array or a string. When \<open>buttons\<close> is an object with a member \<open>length\<close>, the
  comparison converts that member to a number first; for a string this is the runtime's
  \<open>StringToNumber\<close>, whose verdict \<open>str_gt_zero\<close> is a parameter of the model. An array
  is converted through its string; an object converts to \<open>NaN\<close>, or throws when it has a
  member \<open>toString\<close>.
\<close>

fun gt_zero :: "(string \<Rightarrow> bool) \<Rightarrow> jsval \<Rightarrow> bool option" where
  "gt_zero str_gt_zero Undefined = Some False"
| "gt_zero str_gt_zero (Val JNull) = Some False"
| "gt_zero str_gt_zero (Val (JBool b)) = Some b"
| "gt_zero str_gt_zero (Val (JNum n)) = Some (0 < n)"
| "gt_zero str_gt_zero (Val (JStr s)) = Some (str_gt_zero s)"
| "gt_zero str_gt_zero (Val (JArr xs)) = map_option str_gt_zero (join xs)"
| "gt_zero str_gt_zero (Val (JObj kvs)) =
     (if map_of kvs ''toString'' = None then Some False else None)"

fun emit_button_list :: "json list \<Rightarrow> string option" where
  "emit_button_list [] = Some []"
| "emit_button_list (button # rest) =
     (if button = JNull then None
      else do {
        label \<leftarrow> js_to_string (get_prop button ''label'');
        group \<leftarrow> js_to_string (get_prop button ''group'');
        action \<leftarrow> js_to_string (get_prop button ''action'');
        t \<leftarrow> emit_button_list rest;
        Some (''            {'' @ newline @
              ''                label = '' @ quoted label @ '','' @ newline @
              ''                group = '' @ quoted group @ '','' @ newline @
              ''                action = '' @ quoted action @ '','' @ newline @
              ''            },'' @ newline @ t)
      })"

text \<open>Only an array has \<open>forEach\<close>: on another value with a positive \<open>length\<close> the call
  throws.\<close>

fun emit_buttons :: "(string \<Rightarrow> bool) \<Rightarrow> jsval \<Rightarrow> string list option" where
  "emit_buttons str_gt_zero Undefined = Some []"
| "emit_buttons str_gt_zero (Val buttons) =
     (if js_truthy (Val buttons) then do {
        positive \<leftarrow> gt_zero str_gt_zero (get_prop buttons ''length'');
        if positive then
          (case buttons of
             JArr bs \<Rightarrow> do {
               t \<leftarrow> emit_button_list bs;
               Some [''        buttons = {'' @ newline @ t @ ''        },'' @ newline]
             }
           | _ \<Rightarrow> None)
        else Some []
      } else Some [])"

text \<open>Lines 170 to 217: the callback of \<open>items.forEach\<close>. Reading \<open>item.name\<close> throws
  when the item is \<open>null\<close>.\<close>

definition item_fields :: "(string \<Rightarrow> bool) \<Rightarrow> string \<Rightarrow> json \<Rightarrow> string list option" where
  "item_fields str_gt_zero baseUrl item = do {
     scalars \<leftarrow> emit_scalars item;
     client \<leftarrow> emit_client baseUrl (get_prop item ''client'');
     server \<leftarrow> emit_server (get_prop item ''server'');
     buttons \<leftarrow> emit_buttons str_gt_zero (get_prop item ''buttons'');
     Some (scalars @ client @ server @ buttons)
   }"

definition emit_item :: "(string \<Rightarrow> bool) \<Rightarrow> string \<Rightarrow> json \<Rightarrow> string option" where
  "emit_item str_gt_zero baseUrl item =
     (if item = JNull then None
      else do {
        name \<leftarrow> js_to_string (get_prop item ''name'');
        fields \<leftarrow> item_fields str_gt_zero baseUrl item;
        Some (''    ['' @ quoted name @ ''] = {'' @ newline @ concat fields @ ''    },'' @ newline)
      })"

fun emit_items :: "(string \<Rightarrow> bool) \<Rightarrow> string \<Rightarrow> json list \<Rightarrow> string option" where
  "emit_items str_gt_zero baseUrl [] = Some []"
| "emit_items str_gt_zero baseUrl (item # rest) = do {
     t \<leftarrow> emit_item str_gt_zero baseUrl item;
     ts \<leftarrow> emit_items str_gt_zero baseUrl rest;
     Some (t @ ts)
   }"

text \<open>Lines 168 to 219 on the parsed document. Only an array has \<open>forEach\<close>.\<close>

fun emit :: "(string \<Rightarrow> bool) \<Rightarrow> json \<Rightarrow> string \<Rightarrow> string option" where
  "emit str_gt_zero (JArr items) baseUrl = do {
     body \<leftarrow> emit_items str_gt_zero baseUrl items;
     Some (''return {'' @ newline @ body @ ''}'' @ newline)
   }"
| "emit str_gt_zero v baseUrl = None"

section \<open>The server's files and its handlers\<close>

text \<open>
  What the handlers read and change: the document in \<open>items.json\<close> (\<open>None\<close> when the
  file is missing or is not JSON, so that \<open>readFileSync\<close> or \<open>JSON.parse\<close> throws), the
  entries of \<open>uploads/images\<close> by name, whether \<open>writeFileSync\<close> succeeds, and the lines
  of \<open>console.error\<close>. An entry is a file that \<open>unlinkSync\<close> removes, or one on which it
  throws: a directory (the empty name, \<open>.\<close> and \<open>..\<close> name directories) or a file that
  permissions protect. The session check in front of the handlers is not part of the
  model.
\<close>

datatype dir_entry = PlainFile | NotRemovable

record server_state =
  items_json :: "json option"
  uploads :: "string \<Rightarrow> dir_entry option"
  writable :: bool
  console :: "string list"

datatype response = Json nat json | Attachment string

text \<open>The stored collection: what \<open>JSON.parse\<close> gives a handler that reads the file.\<close>

definition stored :: "server_state \<Rightarrow> json option" where
  "stored st = map_option JSON_parse (items_json st)"

text \<open>\<open>app.get('/generate-lua')\<close>, lines 163 to 228. The \<open>catch\<close> logs and answers 500.\<close>

definition generate_lua ::
  "(string \<Rightarrow> bool) \<Rightarrow> server_state \<Rightarrow> request \<Rightarrow> response \<times> server_state" where
  "generate_lua str_gt_zero st req =
     (case do { doc \<leftarrow> items_json st; emit str_gt_zero (JSON_parse doc) (getBaseUrl req) } of
        Some luaContent \<Rightarrow> (Attachment luaContent, st)
      | None \<Rightarrow>
          (Json 500 (JObj [(''error'', JStr ''Failed to generate Lua file'')]),
           st\<lparr>console := console st @ [''Error generating Lua file:'']\<rparr>))"

subsection \<open>\<open>app.delete('/items/:index')\<close>\<close>

text \<open>
  \<open>parseInt(req.params.index)\<close>: white space, a sign, \<open>0x\<close> for base 16, then the
  digits up to the first character that is none; \<open>NaN\<close> (\<open>None\<close>) when there is no
  digit. The result is taken as the integer it denotes, which is what the runtime
  holds below \<open>2^53\<close>; beyond, the runtime's double is another integer that is as far
  beyond the length of any array.
\<close>

definition is_space :: "char \<Rightarrow> bool" where
  "is_space c = (of_char c \<in> {9, 10, 11, 12, 13, 32, 160 :: nat})"

definition hex_val :: "char \<Rightarrow> nat option" where
  "hex_val c =
     (let n = of_char c :: nat in
      if 48 \<le> n \<and> n \<le> 57 then Some (n - 48)
      else if 97 \<le> n \<and> n \<le> 102 then Some (n - 87)
      else if 65 \<le> n \<and> n \<le> 70 then Some (n - 55)
      else None)"

definition digit_in :: "nat \<Rightarrow> char \<Rightarrow> bool" where
  "digit_in radix c = (case hex_val c of None \<Rightarrow> False | Some d \<Rightarrow> d < radix)"

definition read_digits :: "nat \<Rightarrow> string \<Rightarrow> nat" where
  "read_digits radix ds = foldl (\<lambda>n c. radix * n + the (hex_val c)) 0 ds"

definition parseInt :: "string \<Rightarrow> int option" where
  "parseInt s =
     (let s1 = dropWhile is_space s;
          negative = (take 1 s1 = ''-'');
          s2 = (if take 1 s1 = ''-'' \<or> take 1 s1 = ''+'' then drop 1 s1 else s1);
          hex = (take 2 s2 = ''0x'' \<or> take 2 s2 = ''0X'');
          radix = (if hex then 16 else 10);
          s3 = (if hex then drop 2 s2 else s2);
          ds = takeWhile (digit_in radix) s3
      in if ds = [] then None
         else Some (if negative then - int (read_digits radix ds) else int (read_digits radix ds)))"

text \<open>\<open>items[index]\<close>. On an object the property key of a number is its string (the
  decimal numeral, for an integer below \<open>10^21\<close>); of \<open>NaN\<close>, \<open>NaN\<close>.\<close>

definition number_key :: "int option \<Rightarrow> string" where
  "number_key index = (case index of None \<Rightarrow> ''NaN'' | Some i \<Rightarrow> show_int i)"

fun element_at :: "json \<Rightarrow> int option \<Rightarrow> jsval" where
  "element_at (JArr xs) (Some i) =
     (if 0 \<le> i \<and> i < int (length xs) then Val (xs ! nat i) else Undefined)"
| "element_at (JStr s) (Some i) =
     (if 0 \<le> i \<and> i < int (length s) then Val (JStr [s ! nat i]) else Undefined)"
| "element_at (JObj kvs) index = get_prop (JObj kvs) (number_key index)"
| "element_at v index = Undefined"

text \<open>\<open>x?.k\<close>: \<open>undefined\<close> when \<open>x\<close> is \<open>undefined\<close> or \<open>null\<close>.\<close>

fun opt_prop :: "jsval \<Rightarrow> string \<Rightarrow> jsval" where
  "opt_prop Undefined k = Undefined"
| "opt_prop (Val JNull) k = Undefined"
| "opt_prop (Val v) k = get_prop v k"

text \<open>\<open>imageUrl.split('/').pop()\<close>: what follows the last \<open>/\<close>.\<close>

definition last_segment :: "string \<Rightarrow> string" where
  "last_segment url = rev (takeWhile (\<lambda>c. c \<noteq> CHR ''/'') (rev url))"

text \<open>
  Lines 262 to 272: the image of the item is removed when the file exists. \<open>None\<close> is
  an exception: \<open>split\<close> on a value that is no string, or \<open>unlinkSync\<close> on an entry it
  cannot remove.
\<close>

fun delete_image :: "server_state \<Rightarrow> jsval \<Rightarrow> server_state option" where
  "delete_image st (Val (JStr imageUrl)) =
     (if imageUrl \<noteq> [] then
        (case uploads st (last_segment imageUrl) of
           None \<Rightarrow> Some st
         | Some PlainFile \<Rightarrow> Some (st\<lparr>uploads := (uploads st)(last_segment imageUrl := None)\<rparr>)
         | Some NotRemovable \<Rightarrow> None)
      else Some st)"
| "delete_image st x = (if js_truthy x then None else Some st)"

text \<open>
  \<open>items.splice(index, 1)\<close>: \<open>NaN\<close> starts at 0, a negative start counts from the end
  and stops at 0, a start beyond the end is the end; then one element is removed if
  there is one at the start.
\<close>

definition splice_start :: "int option \<Rightarrow> nat \<Rightarrow> nat" where
  "splice_start index len =
     (case index of
        None \<Rightarrow> 0
      | Some i \<Rightarrow> if i < 0 then nat (max (int len + i) 0) else min (nat i) len)"

definition splice :: "'a list \<Rightarrow> int option \<Rightarrow> 'a list" where
  "splice xs index =
     (let start = splice_start index (length xs) in take start xs @ drop (start + 1) xs)"

text \<open>
  The body of the \<open>try\<close>, lines 258 to 276: \<open>Inr\<close> is the state when it completes,
  \<open>Inl\<close> the state at the moment an exception is thrown. Reading \<open>items[index]\<close> throws
  when the document is \<open>null\<close>; only an array has \<open>splice\<close>.
\<close>

definition delete_item_try :: "server_state \<Rightarrow> string \<Rightarrow> server_state + server_state" where
  "delete_item_try st param =
     (let index = parseInt param in
      case items_json st of
        None \<Rightarrow> Inl st
      | Some doc \<Rightarrow>
          (let items = JSON_parse doc in
           if items = JNull then Inl st
           else
             (case delete_image st
                     (opt_prop (opt_prop (element_at items index) ''client'') ''imageurl'') of
                None \<Rightarrow> Inl st
              | Some st1 \<Rightarrow>
                  (case items of
                     JArr xs \<Rightarrow>
                       if writable st1 then Inr (st1\<lparr>items_json := Some (JArr (splice xs index))\<rparr>)
                       else Inl st1
                   | _ \<Rightarrow> Inl st1))))"

definition delete_item :: "server_state \<Rightarrow> string \<Rightarrow> response \<times> server_state" where
  "delete_item st param =
     (case delete_item_try st param of
        Inr st' \<Rightarrow> (Json 200 (JObj [(''success'', JBool True)]), st')
      | Inl st' \<Rightarrow>
          (Json 500 (JObj [(''error'', JStr ''Failed to delete item'')]),
           st'\<lparr>console := console st' @ [''Error deleting item:'']\<rparr>))"

section \<open>Notions the properties are stated with\<close>





text \<open>A base URL that is a scheme and an authority, \<open>http://host\<close> or \<open>https://host\<close>,
  as \<open>getBaseUrl\<close> builds it from an HTTP request.\<close>

definition is_origin :: "string \<Rightarrow> bool" where
  "is_origin b =
     (case scheme_rest b of None \<Rightarrow> False | Some h \<Rightarrow> h \<noteq> [] \<and> CHR ''/'' \<notin> set h)"

text \<open>An image URL whose part after the base is empty or a path from the root: an
  absolute \<open>http\<close> or \<open>https\<close> URL, or a path that starts with \<open>/\<close>.\<close>

definition rooted :: "string \<Rightarrow> bool" where
  "rooted u = (case strip_base u of [] \<Rightarrow> True | c # p \<Rightarrow> c = CHR ''/'')"


section \<open>A catalogue to run the handlers on\<close>

definition bread :: json where
  "bread = JObj [(''name'', JStr ''bread''), (''label'', JStr ''Bread'')]"

definition water :: json where
  "water = JObj
     [(''name'', JStr ''waterbottle''), (''label'', JStr ''Water Bottle''), (''weight'', JNum 500),
      (''client'', JObj
         [(''usetime'', JNum 2500),
          (''imageurl'', JStr ''http://localhost:3000/uploads/images/1-water.png''),
          (''status'', JObj [(''thirst'', JNum 200000)])])]"

definition shop :: server_state where
  "shop = \<lparr>items_json = Some (JArr [water, bread]),
            uploads = (\<lambda>n. if n = ''1-water.png'' then Some PlainFile else None),
            writable = True,
            console = []\<rparr>"

text \<open>The same catalogue where the image cannot be removed.\<close>

definition shop_locked :: server_state where
  "shop_locked = shop\<lparr>uploads := (\<lambda>n. if n = ''1-water.png'' then Some NotRemovable else None)\<rparr>"

text \<open>The same catalogue where the image is no longer in \<open>uploads/images\<close>.\<close>

definition shop_bare :: server_state where
  "shop_bare = shop\<lparr>uploads := (\<lambda>n. None)\<rparr>"




text \<open>Two requests for the same base URL, one of them through a proxy.\<close>

definition direct :: request where
  "direct = \<lparr>x_forwarded_proto = None, protocol = ''https'',
              x_forwarded_host = None, host = Some ''cdn.example''\<rparr>"

definition proxied :: request where
  "proxied = \<lparr>x_forwarded_proto = Some ''https'', protocol = ''http'',
               x_forwarded_host = Some ''cdn.example'', host = Some ''10.0.0.7:3000''\<rparr>"

text \<open>A runtime for the examples: the comparison of a string with 0 is not reached.\<close>

definition no_string :: "string \<Rightarrow> bool" where
  "no_string s = False"

section \<open>Facts for evaluation\<close>

lemmas key_order_defs =
  own_properties_def create_properties_def is_array_index_def is_digit_def read_nat_def
  digit_val_def

lemmas parseInt_defs =
  parseInt_def is_space_def digit_in_def hex_val_def read_digits_def


lemmas rewrite_defs = rewrite_imageurl_def strip_base_def scheme_rest_def

section \<open>Parsing twice is parsing once\<close>

text \<open>
  \<open>JSON.stringify\<close> writes the own properties in their order, so the document the
  delete handler writes back parses to the value it was written from. The lemmas below
  show that \<open>JSON_parse\<close> leaves a parsed value as it is.
\<close>

lemma create_property_fresh:
  "k \<notin> fst ` set ps \<Longrightarrow> create_property k v ps = ps @ [(k, v)]"
  by (induction ps) auto

lemma create_property_map_fst:
  "map fst (create_property k v ps) =
     (if k \<in> set (map fst ps) then map fst ps else map fst ps @ [k])"
  by (induction ps) (force split: if_splits)+

lemma create_property_keys:
  "set (map fst (create_property k v ps)) = insert k (set (map fst ps))"
  unfolding create_property_map_fst by auto

lemma create_property_distinct:
  "distinct (map fst ps) \<Longrightarrow> distinct (map fst (create_property k v ps))"
proof (induction ps)
  case Nil
  then show ?case by simp
next
  case (Cons p ps)
  obtain k' v' where p: "p = (k', v')" by (cases p)
  show ?case
  proof (cases "k = k'")
    case True
    with Cons.prems p show ?thesis by simp
  next
    case False
    have "k' \<notin> set (map fst (create_property k v ps))"
      using Cons.prems p False by (simp add: create_property_keys del: set_map)
    with Cons p False show ?thesis by simp
  qed
qed

lemma create_property_set:
  "set (create_property k v ps) \<subseteq> insert (k, v) (set ps)"
  by (induction ps) (auto split: if_splits)

lemma foldl_create_distinct:
  "distinct (map fst acc) \<Longrightarrow>
   distinct (map fst (foldl (\<lambda>ps (k, v). create_property k v ps) acc kvs))"
  by (induction kvs arbitrary: acc) (auto simp: create_property_distinct split: prod.splits)

lemma foldl_create_set:
  "set (foldl (\<lambda>ps (k, v). create_property k v ps) acc kvs) \<subseteq> set acc \<union> set kvs"
proof (induction kvs arbitrary: acc)
  case Nil
  then show ?case by simp
next
  case (Cons p kvs)
  obtain k v where p: "p = (k, v)" by (cases p)
  have "set (foldl (\<lambda>ps (k, v). create_property k v ps) (create_property k v acc) kvs)
        \<subseteq> set (create_property k v acc) \<union> set kvs"
    by (rule Cons.IH)
  also have "\<dots> \<subseteq> insert (k, v) (set acc) \<union> set kvs"
    using create_property_set [of k v acc] by auto
  finally show ?case using p by auto
qed

lemma foldl_create_id:
  "distinct (map fst (acc @ kvs)) \<Longrightarrow>
   foldl (\<lambda>ps (k, v). create_property k v ps) acc kvs = acc @ kvs"
proof (induction kvs arbitrary: acc)
  case Nil
  then show ?case by simp
next
  case (Cons p kvs)
  obtain k v where p: "p = (k, v)" by (cases p)
  from Cons.prems p have fresh: "k \<notin> fst ` set acc" by auto
  from Cons.prems p have "distinct (map fst ((acc @ [(k, v)]) @ kvs))" by auto
  from Cons.IH [OF this] fresh p show ?case
    by (simp add: create_property_fresh)
qed

lemma create_properties_distinct: "distinct (map fst (create_properties kvs))"
  unfolding create_properties_def by (rule foldl_create_distinct) simp

lemma create_properties_set: "set (create_properties kvs) \<subseteq> set kvs"
  unfolding create_properties_def using foldl_create_set [of "[]" kvs] by simp

lemma create_properties_id: "distinct (map fst kvs) \<Longrightarrow> create_properties kvs = kvs"
  unfolding create_properties_def using foldl_create_id [of "[]" kvs] by simp

lemma own_properties_set: "set (own_properties ps) = set ps"
  unfolding own_properties_def by auto

lemma own_properties_distinct:
  "distinct (map fst ps) \<Longrightarrow> distinct (map fst (own_properties ps))"
  unfolding own_properties_def
  by (auto simp: distinct_map inj_on_def)

lemma own_properties_idem: "own_properties (own_properties ps) = own_properties ps"
proof -
  let ?A = "sort_key (\<lambda>(k, v). read_nat k) (filter (\<lambda>(k, v). is_array_index k) ps)"
  let ?B = "filter (\<lambda>(k, v). \<not> is_array_index k) ps"
  have a: "filter (\<lambda>(k, v). is_array_index k) (?A @ ?B) = ?A"
    by (auto simp: filter_id_conv filter_empty_conv)
  have b: "filter (\<lambda>(k, v). \<not> is_array_index k) (?A @ ?B) = ?B"
    by (auto simp: filter_id_conv filter_empty_conv)
  have c: "sort_key (\<lambda>(k, v). read_nat k) ?A = ?A"
    by (rule sort_key_id_if_sorted) simp
  show ?thesis
    unfolding own_properties_def a b c ..
qed

lemma JSON_parse_idem: "JSON_parse (JSON_parse d) = JSON_parse d"
proof (induction d)
  case (JArr xs)
  then show ?case by simp
next
  case (JObj kvs)
  let ?ps = "map (\<lambda>(k, v). (k, JSON_parse v)) kvs"
  let ?N = "own_properties (create_properties ?ps)"
  have fixed: "\<And>k v. (k, v) \<in> set ?N \<Longrightarrow> JSON_parse v = v"
  proof -
    fix k v
    assume "(k, v) \<in> set ?N"
    then have "(k, v) \<in> set ?ps"
      using create_properties_set [of ?ps] by (auto simp: own_properties_set)
    then obtain v0 where "(k, v0) \<in> set kvs" "v = JSON_parse v0" by auto
    with JObj.IH [of "(k, v0)" v0] show "JSON_parse v = v" by simp
  qed
  have "map (\<lambda>(k, v). (k, JSON_parse v)) ?N = ?N"
    by (rule map_idI) (auto dest: fixed)
  moreover have "own_properties (create_properties ?N) = ?N"
    by (simp add: create_properties_id own_properties_distinct create_properties_distinct
        own_properties_idem)
  ultimately show ?case by simp
qed simp_all

section \<open>Deleting an item\<close>

lemma stored_elements_parsed:
  assumes "stored st = Some (JArr xs)"
  shows "map JSON_parse xs = xs"
proof -
  from assms obtain doc where "JSON_parse doc = JArr xs"
    by (auto simp: stored_def)
  then have "JSON_parse (JArr xs) = JArr xs"
    using JSON_parse_idem [of doc] by simp
  then show ?thesis by simp
qed



lemma delete_item_try_array:
  assumes "stored st = Some (JArr xs)"
  shows "delete_item_try st param =
     (case delete_image st
             (opt_prop (opt_prop (element_at (JArr xs) (parseInt param)) ''client'') ''imageurl'') of
        None \<Rightarrow> Inl st
      | Some st1 \<Rightarrow>
          if writable st1 then Inr (st1\<lparr>items_json := Some (JArr (splice xs (parseInt param)))\<rparr>)
          else Inl st1)"
  using assms
  by (auto simp: delete_item_try_def stored_def Let_def split: option.splits)

lemma splice_in_range:
  "0 \<le> i \<Longrightarrow> i < int (length xs) \<Longrightarrow>
   splice xs (Some i) = take (nat i) xs @ drop (Suc (nat i)) xs"
  by (auto simp: splice_def splice_start_def min_def Let_def)

lemma splice_beyond: "int (length xs) \<le> i \<Longrightarrow> splice xs (Some i) = xs"
  by (auto simp: splice_def splice_start_def min_def Let_def)

lemma splice_negative:
  "i < 0 \<Longrightarrow>
   splice xs (Some i) =
     take (nat (max (int (length xs) + i) 0)) xs @ drop (Suc (nat (max (int (length xs) + i) 0))) xs"
  by (simp add: splice_def splice_start_def Let_def)

lemma stored_shop: "stored shop = Some (JArr [water, bread])"
  by (simp add: stored_def shop_def water_def bread_def key_order_defs)

lemma stored_shop_bare: "stored shop_bare = Some (JArr [water, bread])"
  by (simp add: stored_def shop_bare_def shop_def water_def bread_def key_order_defs)

lemma stored_shop_locked: "stored shop_locked = Some (JArr [water, bread])"
  by (simp add: stored_def shop_locked_def shop_def water_def bread_def key_order_defs)

lemma water_imageurl:
  "opt_prop (opt_prop (Val water) ''client'') ''imageurl'' =
     Val (JStr ''http://localhost:3000/uploads/images/1-water.png'')"
  by (simp add: water_def)

lemma water_image_name:
  "last_segment ''http://localhost:3000/uploads/images/1-water.png'' = ''1-water.png''"
  by (simp add: last_segment_def)



text \<open>
  C1, as the code has it. The handler has no range check and no index error. With an
  index at or beyond the length, \<open>splice\<close> removes nothing: the handler answers with
  success and the stored collection is unchanged. With a negative index, \<open>splice\<close> counts
  from the end: the handler answers with success and removes the item at position
  \<open>max (N + i) 0\<close>. In both cases no image is removed, \<open>items[index]\<close> being
  \<open>undefined\<close>.
\<close>

theorem delete_item_outside_range:
  assumes "parseInt param = Some i"
    and "stored st = Some (JArr xs)"
    and "writable st"
  shows "(int (length xs) \<le> i \<longrightarrow>
            delete_item st param =
              (Json 200 (JObj [(''success'', JBool True)]), st\<lparr>items_json := Some (JArr xs)\<rparr>) \<and>
            stored (snd (delete_item st param)) = stored st) \<and>
         (i < 0 \<longrightarrow>
            delete_item st param =
              (Json 200 (JObj [(''success'', JBool True)]),
               st\<lparr>items_json := Some (JArr (take (nat (max (int (length xs) + i) 0)) xs @
                                             drop (Suc (nat (max (int (length xs) + i) 0))) xs))\<rparr>))"
proof (intro conjI impI)
  assume beyond: "int (length xs) \<le> i"
  then have "delete_item_try st param = Inr (st\<lparr>items_json := Some (JArr xs)\<rparr>)"
    using assms by (simp add: delete_item_try_array splice_beyond)
  then show d: "delete_item st param =
      (Json 200 (JObj [(''success'', JBool True)]), st\<lparr>items_json := Some (JArr xs)\<rparr>)"
    by (simp add: delete_item_def)
  have "map JSON_parse xs = xs"
    using assms(2) by (rule stored_elements_parsed)
  then have "stored (st\<lparr>items_json := Some (JArr xs)\<rparr>) = Some (JArr xs)"
    by (simp add: stored_def)
  with d assms(2) show "stored (snd (delete_item st param)) = stored st" by simp
next
  assume neg: "i < 0"
  then have "delete_item_try st param =
      Inr (st\<lparr>items_json := Some (JArr (take (nat (max (int (length xs) + i) 0)) xs @
                                         drop (Suc (nat (max (int (length xs) + i) 0))) xs))\<rparr>)"
    using assms by (simp add: delete_item_try_array splice_negative del: max.absorb1 max.absorb2 max.absorb3 max.absorb4)
  then show "delete_item st param =
      (Json 200 (JObj [(''success'', JBool True)]),
       st\<lparr>items_json := Some (JArr (take (nat (max (int (length xs) + i) 0)) xs @
                                     drop (Suc (nat (max (int (length xs) + i) 0))) xs))\<rparr>)"
    by (simp add: delete_item_def)
qed

theorem delete_item_outside_range_witness:
  "parseInt ''5'' = Some 5 \<and> parseInt ''-1'' = Some (- 1) \<and>
   stored shop = Some (JArr [water, bread]) \<and> writable shop \<and>
   int (length [water, bread]) \<le> 5 \<and> (- 1 :: int) < 0 \<and>
   delete_item shop ''5'' =
     (Json 200 (JObj [(''success'', JBool True)]), shop\<lparr>items_json := Some (JArr [water, bread])\<rparr>) \<and>
   stored (snd (delete_item shop ''5'')) = stored shop \<and>
   delete_item shop ''-1'' =
     (Json 200 (JObj [(''success'', JBool True)]), shop\<lparr>items_json := Some (JArr [water])\<rparr>)"
proof -
  have p: "parseInt ''5'' = Some 5" by (simp add: parseInt_defs)
  have q: "parseInt ''-1'' = Some (- 1)" by (simp add: parseInt_defs)
  have w: "writable shop" by (simp add: shop_def)
  have l: "int (length [water, bread]) \<le> 5" by simp
  have n: "(- 1 :: int) < 0" by simp
  have a: "delete_item shop ''5'' =
     (Json 200 (JObj [(''success'', JBool True)]), shop\<lparr>items_json := Some (JArr [water, bread])\<rparr>) \<and>
   stored (snd (delete_item shop ''5'')) = stored shop"
    using delete_item_outside_range [OF p stored_shop w, THEN conjunct1, THEN mp, OF l] .
  have b: "delete_item shop ''-1'' =
     (Json 200 (JObj [(''success'', JBool True)]), shop\<lparr>items_json := Some (JArr [water])\<rparr>)"
    using delete_item_outside_range [OF q stored_shop w, THEN conjunct2, THEN mp, OF n] by simp
  from p q stored_shop w l n a b show ?thesis by (intro conjI) (elim conjE, assumption)+
qed

text \<open>
  C1 as stated fails: on the catalogue of two items, the indices \<open>5\<close> and \<open>-1\<close> are out
  of range, the handler answers both with success, and \<open>-1\<close> removes the last item.
\<close>

theorem delete_item_outside_range_counterexample:
  "parseInt ''5'' = Some 5 \<and> parseInt ''-1'' = Some (- 1) \<and>
   stored shop = Some (JArr [water, bread]) \<and>
   delete_item shop ''5'' =
     (Json 200 (JObj [(''success'', JBool True)]), shop\<lparr>items_json := Some (JArr [water, bread])\<rparr>) \<and>
   delete_item shop ''-1'' =
     (Json 200 (JObj [(''success'', JBool True)]), shop\<lparr>items_json := Some (JArr [water])\<rparr>)"
proof -
  have p: "parseInt ''5'' = Some 5" "parseInt ''-1'' = Some (- 1)"
    by (simp_all add: parseInt_defs)
  have a: "delete_item_try shop ''5'' = Inr (shop\<lparr>items_json := Some (JArr [water, bread])\<rparr>)"
    by (simp add: delete_item_try_array [OF stored_shop] p splice_def splice_start_def)
       (simp add: shop_def)
  have b: "delete_item_try shop ''-1'' = Inr (shop\<lparr>items_json := Some (JArr [water])\<rparr>)"
    by (simp add: delete_item_try_array [OF stored_shop] p splice_def splice_start_def)
       (simp add: shop_def)
  from p stored_shop a b show ?thesis by (simp add: delete_item_def)
qed

text \<open>
  C2, as the code has it. \<open>unlinkSync\<close> runs inside the handler's \<open>try\<close>, before the
  item is removed. When the image the item names is not in \<open>uploads/images\<close>, the item is
  removed and the handler answers with success. When the image is there and cannot be
  removed, the exception ends the \<open>try\<close>: the handler logs it and answers 500, and the
  item stays in the stored collection.
\<close>

theorem delete_item_image_failure:
  assumes "parseInt param = Some i"
    and "0 \<le> i" and "i < int (length xs)"
    and "stored st = Some (JArr xs)"
    and "opt_prop (opt_prop (Val (xs ! nat i)) ''client'') ''imageurl'' = Val (JStr url)"
    and "url \<noteq> []"
    and "writable st"
  shows "(uploads st (last_segment url) = None \<longrightarrow>
            delete_item st param =
              (Json 200 (JObj [(''success'', JBool True)]),
               st\<lparr>items_json := Some (JArr (take (nat i) xs @ drop (Suc (nat i)) xs))\<rparr>)) \<and>
         (uploads st (last_segment url) = Some NotRemovable \<longrightarrow>
            delete_item st param =
              (Json 500 (JObj [(''error'', JStr ''Failed to delete item'')]),
               st\<lparr>console := console st @ [''Error deleting item:'']\<rparr>) \<and>
            stored (snd (delete_item st param)) = stored st)"
proof (intro conjI impI)
  assume "uploads st (last_segment url) = None"
  then have "delete_item_try st param =
      Inr (st\<lparr>items_json := Some (JArr (take (nat i) xs @ drop (Suc (nat i)) xs))\<rparr>)"
    using assms by (simp add: delete_item_try_array splice_in_range)
  then show "delete_item st param =
      (Json 200 (JObj [(''success'', JBool True)]),
       st\<lparr>items_json := Some (JArr (take (nat i) xs @ drop (Suc (nat i)) xs))\<rparr>)"
    by (simp add: delete_item_def)
next
  assume "uploads st (last_segment url) = Some NotRemovable"
  then have "delete_item_try st param = Inl st"
    using assms by (simp add: delete_item_try_array)
  then show d: "delete_item st param =
      (Json 500 (JObj [(''error'', JStr ''Failed to delete item'')]),
       st\<lparr>console := console st @ [''Error deleting item:'']\<rparr>)"
    by (simp add: delete_item_def)
  show "stored (snd (delete_item st param)) = stored st"
    by (simp add: d stored_def)
qed

theorem delete_item_image_failure_witness:
  "parseInt ''0'' = Some 0 \<and> (0::int) \<le> 0 \<and> 0 < int (length [water, bread]) \<and>
   stored shop_locked = Some (JArr [water, bread]) \<and> stored shop_bare = Some (JArr [water, bread]) \<and>
   opt_prop (opt_prop (Val ([water, bread] ! nat 0)) ''client'') ''imageurl'' =
     Val (JStr ''http://localhost:3000/uploads/images/1-water.png'') \<and>
   ''http://localhost:3000/uploads/images/1-water.png'' \<noteq> [] \<and>
   writable shop_locked \<and> writable shop_bare \<and>
   uploads shop_bare (last_segment ''http://localhost:3000/uploads/images/1-water.png'') = None \<and>
   uploads shop_locked (last_segment ''http://localhost:3000/uploads/images/1-water.png'')
     = Some NotRemovable \<and>
   delete_item shop_bare ''0'' =
     (Json 200 (JObj [(''success'', JBool True)]), shop_bare\<lparr>items_json := Some (JArr [bread])\<rparr>) \<and>
   delete_item shop_locked ''0'' =
     (Json 500 (JObj [(''error'', JStr ''Failed to delete item'')]),
      shop_locked\<lparr>console := console shop_locked @ [''Error deleting item:'']\<rparr>)"
proof -
  have p: "parseInt ''0'' = Some 0" by (simp add: parseInt_defs)
  have r: "(0::int) \<le> 0" "0 < int (length [water, bread])" by simp_all
  have i: "opt_prop (opt_prop (Val ([water, bread] ! nat 0)) ''client'') ''imageurl'' =
     Val (JStr ''http://localhost:3000/uploads/images/1-water.png'')"
    by (simp add: water_imageurl)
  have n: "''http://localhost:3000/uploads/images/1-water.png'' \<noteq> []" by simp
  have w: "writable shop_locked" "writable shop_bare"
    by (simp_all add: shop_locked_def shop_bare_def shop_def)
  have u1: "uploads shop_bare (last_segment ''http://localhost:3000/uploads/images/1-water.png'') = None"
    by (simp add: shop_bare_def)
  have u2: "uploads shop_locked (last_segment ''http://localhost:3000/uploads/images/1-water.png'')
     = Some NotRemovable"
    by (simp add: water_image_name shop_locked_def)
  from delete_item_image_failure [OF p r stored_shop_bare i n w(2)] u1
  have a: "delete_item shop_bare ''0'' =
     (Json 200 (JObj [(''success'', JBool True)]), shop_bare\<lparr>items_json := Some (JArr [bread])\<rparr>)"
    by simp
  from delete_item_image_failure [OF p r stored_shop_locked i n w(1)] u2
  have b: "delete_item shop_locked ''0'' =
     (Json 500 (JObj [(''error'', JStr ''Failed to delete item'')]),
      shop_locked\<lparr>console := console shop_locked @ [''Error deleting item:'']\<rparr>)"
    by blast
  from p r stored_shop_locked stored_shop_bare i n w u1 u2 a b show ?thesis by blast
qed

text \<open>
  C2 as stated fails: the first item of the catalogue names an image that cannot be
  removed; the delete request for it is answered with 500 and the collection still holds
  both items.
\<close>

theorem delete_item_image_failure_counterexample:
  "parseInt ''0'' = Some 0 \<and> stored shop_locked = Some (JArr [water, bread]) \<and>
   opt_prop (opt_prop (Val water) ''client'') ''imageurl'' =
     Val (JStr ''http://localhost:3000/uploads/images/1-water.png'') \<and>
   uploads shop_locked ''1-water.png'' = Some NotRemovable \<and>
   delete_item shop_locked ''0'' =
     (Json 500 (JObj [(''error'', JStr ''Failed to delete item'')]),
      shop_locked\<lparr>console := [''Error deleting item:'']\<rparr>) \<and>
   stored (snd (delete_item shop_locked ''0'')) = Some (JArr [water, bread])"
proof -
  have p: "parseInt ''0'' = Some 0" by (simp add: parseInt_defs)
  have u: "uploads shop_locked ''1-water.png'' = Some NotRemovable"
    by (simp add: shop_locked_def)
  have c: "console shop_locked = []" by (simp add: shop_locked_def shop_def)
  have t: "delete_item_try shop_locked ''0'' = Inl shop_locked"
    by (simp add: delete_item_try_array [OF stored_shop_locked] p water_imageurl
        water_image_name u)
  then have d: "delete_item shop_locked ''0'' =
     (Json 500 (JObj [(''error'', JStr ''Failed to delete item'')]),
      shop_locked\<lparr>console := [''Error deleting item:'']\<rparr>)"
    by (simp add: delete_item_def c)
  have "stored (snd (delete_item shop_locked ''0'')) = Some (JArr [water, bread])"
    using stored_shop_locked by (simp add: d stored_def)
  with p stored_shop_locked water_imageurl u d show ?thesis by blast
qed

text \<open>
  C9. On a stored collection that is not empty, a delete request whose index parameter
  does not parse as a number (\<open>parseInt\<close> gives \<open>NaN\<close>) removes the first item and
  answers with success, when the write succeeds: the request is not rejected.
\<close>

theorem delete_item_NaN_index:
  assumes "parseInt param = None"
    and "stored st = Some (JArr (x # xs))"
    and "writable st"
  shows "delete_item st param =
           (Json 200 (JObj [(''success'', JBool True)]), st\<lparr>items_json := Some (JArr xs)\<rparr>) \<and>
         stored (snd (delete_item st param)) = Some (JArr xs)"
proof -
  have run: "delete_item_try st param = Inr (st\<lparr>items_json := Some (JArr xs)\<rparr>)"
    using assms by (simp add: delete_item_try_array splice_def splice_start_def)
  have "map JSON_parse (x # xs) = x # xs"
    using assms(2) by (rule stored_elements_parsed)
  then have "map JSON_parse xs = xs" by simp
  then have "stored (st\<lparr>items_json := Some (JArr xs)\<rparr>) = Some (JArr xs)"
    by (simp add: stored_def)
  with run show ?thesis by (simp add: delete_item_def)
qed

theorem delete_item_NaN_index_witness:
  "parseInt ''abc'' = None \<and> stored shop = Some (JArr [water, bread]) \<and> writable shop \<and>
   delete_item shop ''abc'' =
     (Json 200 (JObj [(''success'', JBool True)]), shop\<lparr>items_json := Some (JArr [bread])\<rparr>) \<and>
   stored (snd (delete_item shop ''abc'')) = Some (JArr [bread])"
proof -
  have p: "parseInt ''abc'' = None" by (simp add: parseInt_defs)
  have w: "writable shop" by (simp add: shop_def)
  from delete_item_NaN_index [OF p stored_shop w] p w stored_shop show ?thesis by blast
qed

section \<open>The fields of an item in the generated text\<close>



























section \<open>Rewriting an image URL twice\<close>

lemma scheme_rest_append:
  assumes "scheme_rest b = Some h"
  shows "scheme_rest (b @ p) = Some (h @ p)"
proof (cases "take 8 b = ''https://''")
  case True
  then have "length (take 8 b) = 8" by simp
  then have len: "8 \<le> length b" by simp
  with True assms show ?thesis by (simp add: scheme_rest_def)
next
  case False
  with assms have h7: "take 7 b = ''http://''" and h: "h = drop 7 b"
    by (auto simp: scheme_rest_def split: if_splits)
  from h7 have "length (take 7 b) = 7" by simp
  then have len: "7 \<le> length b" by simp
  have "take 8 (b @ p) \<noteq> ''https://''"
  proof
    assume e: "take 8 (b @ p) = ''https://''"
    have "take 7 (take 8 (b @ p)) = ''https:/''" unfolding e by simp
    moreover have "take 7 (take 8 (b @ p)) = take 7 b" using len by simp
    ultimately show False using h7 by simp
  qed
  with h7 h len show ?thesis by (simp add: scheme_rest_def)
qed

lemma strip_base_after_origin:
  assumes "is_origin b" and "p = [] \<or> hd p = CHR ''/''"
  shows "strip_base (b @ p) = p"
proof -
  from assms(1) obtain h where
    h: "scheme_rest b = Some h" "h \<noteq> []" "CHR ''/'' \<notin> set h"
    by (auto simp: is_origin_def split: option.splits)
  have tp: "takeWhile (\<lambda>c. c \<noteq> CHR ''/'') p = []"
    using assms(2) by (cases p) auto
  have dp: "dropWhile (\<lambda>c. c \<noteq> CHR ''/'') p = p"
    using assms(2) by (cases p) auto
  have no_slash: "\<And>x. x \<in> set h \<Longrightarrow> x \<noteq> CHR ''/''"
    using h(3) by auto
  have t: "takeWhile (\<lambda>c. c \<noteq> CHR ''/'') (h @ p) = h"
    using takeWhile_append2 [of h "\<lambda>c. c \<noteq> CHR ''/''" p, OF no_slash] tp by simp
  have d: "dropWhile (\<lambda>c. c \<noteq> CHR ''/'') (h @ p) = p"
    using dropWhile_append2 [of h "\<lambda>c. c \<noteq> CHR ''/''" p, OF no_slash] dp by simp
  show ?thesis
    using h(2) by (simp add: strip_base_def scheme_rest_append [OF h(1)] t d)
qed

text \<open>
  C3, as the code has it. For a base URL that is \<open>http://\<close> or \<open>https://\<close> and an
  authority, and an image URL that is an absolute \<open>http\<close> or \<open>https\<close> URL or a path
  from the root, rewriting the rewritten URL with the same base gives the same URL.
\<close>

theorem rewrite_imageurl_idempotent:
  assumes "is_origin baseUrl" and "rooted imageurl"
  shows "rewrite_imageurl baseUrl (rewrite_imageurl baseUrl imageurl) =
           rewrite_imageurl baseUrl imageurl"
proof -
  from assms(2) have "strip_base imageurl = [] \<or> hd (strip_base imageurl) = CHR ''/''"
    by (auto simp: rooted_def split: list.splits)
  with assms(1) have "strip_base (baseUrl @ strip_base imageurl) = strip_base imageurl"
    by (rule strip_base_after_origin)
  then show ?thesis by (simp add: rewrite_imageurl_def)
qed

theorem rewrite_imageurl_idempotent_witness:
  "is_origin ''https://cdn.example'' \<and>
   rooted ''http://localhost:3000/uploads/images/1-water.png'' \<and>
   rewrite_imageurl ''https://cdn.example'' ''http://localhost:3000/uploads/images/1-water.png''
     = ''https://cdn.example/uploads/images/1-water.png'' \<and>
   rewrite_imageurl ''https://cdn.example''
       (rewrite_imageurl ''https://cdn.example'' ''http://localhost:3000/uploads/images/1-water.png'')
     = rewrite_imageurl ''https://cdn.example'' ''http://localhost:3000/uploads/images/1-water.png''"
proof -
  have o: "is_origin ''https://cdn.example''"
    by (simp add: is_origin_def scheme_rest_def)
  have r: "rooted ''http://localhost:3000/uploads/images/1-water.png''"
    by (simp add: rooted_def strip_base_def scheme_rest_def)
  have v: "rewrite_imageurl ''https://cdn.example'' ''http://localhost:3000/uploads/images/1-water.png''
     = ''https://cdn.example/uploads/images/1-water.png''"
    by (simp add: rewrite_defs)
  from o r v rewrite_imageurl_idempotent [OF o r] show ?thesis by (intro conjI)
qed

text \<open>
  C3 as stated fails. The image URL \<open>a.png\<close> is rewritten to \<open>http://ha.png\<close>, and
  that to \<open>http://h\<close>. With the base \<open>https,http://h\<close>, which the pattern does not
  match, the second rewriting puts the base in front twice.
\<close>

theorem rewrite_imageurl_idempotent_counterexample:
  "rewrite_imageurl ''http://h'' ''a.png'' = ''http://ha.png'' \<and>
   rewrite_imageurl ''http://h'' (rewrite_imageurl ''http://h'' ''a.png'') = ''http://h'' \<and>
   rewrite_imageurl ''https,http://h'' ''/a.png'' = ''https,http://h/a.png'' \<and>
   rewrite_imageurl ''https,http://h'' (rewrite_imageurl ''https,http://h'' ''/a.png'')
     = ''https,http://hhttps,http://h/a.png''"
  by (simp add: rewrite_defs)

section \<open>The generator as a function of the document and the base URL\<close>

lemma getBaseUrl_direct: "getBaseUrl direct = ''https://cdn.example''"
  by (simp add: getBaseUrl_def direct_def header_or_def)

lemma getBaseUrl_proxied: "getBaseUrl proxied = ''https://cdn.example''"
  by (simp add: getBaseUrl_def proxied_def header_or_def)

text \<open>
  C6. The answer of the generator depends on the document in \<open>items.json\<close> and on the
  base URL of the request, and on nothing else of the state or the request: two calls
  that agree on both give the same answer, so the same text. The handler changes no file,
  and when it sends the text it leaves the state as it was (when it fails it logs).
\<close>

theorem generate_lua_deterministic:
  assumes "items_json st1 = items_json st2" and "getBaseUrl req1 = getBaseUrl req2"
  shows "fst (generate_lua str_gt_zero st1 req1) = fst (generate_lua str_gt_zero st2 req2) \<and>
         items_json (snd (generate_lua str_gt_zero st1 req1)) = items_json st1 \<and>
         uploads (snd (generate_lua str_gt_zero st1 req1)) = uploads st1 \<and>
         writable (snd (generate_lua str_gt_zero st1 req1)) = writable st1 \<and>
         (\<forall>luaContent. fst (generate_lua str_gt_zero st1 req1) = Attachment luaContent \<longrightarrow>
            snd (generate_lua str_gt_zero st1 req1) = st1)"
  using assms by (auto simp: generate_lua_def split: option.splits)

theorem generate_lua_deterministic_witness:
  "items_json shop = items_json shop_locked \<and> getBaseUrl direct = getBaseUrl proxied \<and>
   uploads shop \<noteq> uploads shop_locked \<and>
   fst (generate_lua no_string shop direct) = fst (generate_lua no_string shop_locked proxied)"
proof -
  have i: "items_json shop = items_json shop_locked" by (simp add: shop_locked_def)
  have b: "getBaseUrl direct = getBaseUrl proxied"
    by (simp add: getBaseUrl_direct getBaseUrl_proxied)
  have "uploads shop ''1-water.png'' \<noteq> uploads shop_locked ''1-water.png''"
    by (simp add: shop_def shop_locked_def)
  then have u: "uploads shop \<noteq> uploads shop_locked" by auto
  from generate_lua_deterministic [OF i b, of no_string]
  have "fst (generate_lua no_string shop direct) = fst (generate_lua no_string shop_locked proxied)"
    by (rule conjunct1)
  with i b u show ?thesis by (intro conjI)
qed

section \<open>The order of the entries of \<open>status\<close>\<close>







end
